theory Spec2Isabelle
  imports Main
begin

section \<open>The Debian builder of driverkit (pkg/driverbuilder/builder/debian.go)\<close>

text \<open>
  The Debian builder resolves, for a kernel release, the URLs of three Debian packages
  (kernel headers, common kernel headers, kbuild) by scraping mirror index pages with
  regular expressions, and renders a shell script from a template. The Go functions are
  embedded as HOL functions of the same names. What the code takes from outside (the
  network, the regular-expression library, the template parser, helpers and constants
  of the package that live in other files) is a field of the record \<open>env\<close>, so every
  theorem holds for every behaviour of those parts.
\<close>

subsection \<open>Go values: errors, panics, strings\<close>

text \<open>A Go \<^verbatim>\<open>error\<close> is represented by its message (\<^verbatim>\<open>fmt.Errorf(msg)\<close>).\<close>

datatype error = Errorf string

text \<open>
  A call either panics or returns its value together with an error, which is \<open>None\<close>
  for Go's \<^verbatim>\<open>nil\<close>. The nil slice is the empty list.
\<close>

datatype 'a go = Panic string | Return 'a "error option"

text \<open>The two characters that a HOL string literal cannot hold.\<close>

definition bs :: string where
  "bs = [CHR 0x5C]"

definition dq :: string where
  "dq = [CHR 0x22]"

text \<open>\<^verbatim>\<open>strings.HasPrefix\<close>, \<^verbatim>\<open>strings.HasSuffix\<close>, \<^verbatim>\<open>strings.TrimSuffix\<close>, \<^verbatim>\<open>strings.Contains\<close>.\<close>

fun strings_HasPrefix :: "string \<Rightarrow> string \<Rightarrow> bool" where
  "strings_HasPrefix s [] = True"
| "strings_HasPrefix [] (p # ps) = False"
| "strings_HasPrefix (c # cs) (p # ps) = (c = p \<and> strings_HasPrefix cs ps)"

definition strings_HasSuffix :: "string \<Rightarrow> string \<Rightarrow> bool" where
  "strings_HasSuffix s suffix = strings_HasPrefix (rev s) (rev suffix)"

definition strings_TrimSuffix :: "string \<Rightarrow> string \<Rightarrow> string" where
  "strings_TrimSuffix s suffix =
     (if strings_HasSuffix s suffix then take (length s - length suffix) s else s)"

fun strings_Contains :: "string \<Rightarrow> string \<Rightarrow> bool" where
  "strings_Contains [] substr = (substr = [])"
| "strings_Contains (c # cs) substr =
     (strings_HasPrefix (c # cs) substr \<or> strings_Contains cs substr)"

text \<open>The verb \<^verbatim>\<open>%d\<close> of \<^verbatim>\<open>fmt.Sprintf\<close>: an integer in decimal, with a minus sign when negative.\<close>

definition digit :: "nat \<Rightarrow> char" where
  "digit n = ''0123456789'' ! (n mod 10)"

fun digits :: "nat \<Rightarrow> string" where
  "digits n = (if n < 10 then [digit n] else digits (n div 10) @ [digit n])"

declare digits.simps [simp del]

definition fmt_d :: "int \<Rightarrow> string" where
  "fmt_d i = (if i < 0 then ''-'' @ digits (nat (- i)) else digits (nat i))"

subsection \<open>The kernel release\<close>

text \<open>
  Modelled from the spec: the struct \<^verbatim>\<open>kernelrelease.KernelRelease\<close> is declared in a package
  that is not among the sources. The fields are those debian.go reads; \<open>Architecture\<close>
  holds the canonical string form that \<^verbatim>\<open>kr.Architecture.String()\<close> returns.
\<close>

record KernelRelease =
  Version :: int
  PatchLevel :: int
  Sublevel :: int
  FullExtraversion :: string
  Architecture :: string

subsection \<open>The environment\<close>

text \<open>
  What debian.go calls and does not define.
  \<^item> \<open>http_Get url\<close> is \<^verbatim>\<open>http.Get(url)\<close>: a transport error, or a response. A response
    is represented by what \<^verbatim>\<open>ioutil.ReadAll(resp.Body)\<close> returns for it: a read error, or
    the body. The status code is not part of the model, since the code never reads it.
  \<^item> \<open>regexp_Compile p\<close> is the regular-expression library: \<open>None\<close> when the pattern
    \<open>p\<close> does not compile (then \<^verbatim>\<open>regexp.MustCompile\<close> panics), and otherwise the function
    \<^verbatim>\<open>FindStringSubmatch\<close> of the compiled pattern, whose result \<open>[]\<close> is Go's \<^verbatim>\<open>nil\<close> (no
    match) and otherwise holds the whole match followed by the groups.
  \<^item> \<open>getResolvingURLs\<close> is the package's helper of that name, defined in another file;
    it keeps the URLs that answer an HTTP request.
  \<^item> \<open>debTemplateStr arch\<close> is \<^verbatim>\<open>fmt.Sprintf(debianTemplate, arch)\<close>, the text of the
    embedded file templates/debian.sh with the architecture substituted; the file is not
    among the sources.
  \<^item> \<open>template_Parse\<close> is \<^verbatim>\<open>template.New(name).Parse\<close> of text/template: a parse error,
    or the parsed tree.
  \<^item> \<open>DriverDirectory\<close> and \<open>ModuleFullPath\<close> are constants of the package, declared in
    another file.
\<close>

type_synonym response = "error + string"

text \<open>
  The parsed template: the part of text/template's tree that the builders' templates
  use. \<open>TField f\<close> is \<^verbatim>\<open>{{ .f }}\<close>, \<open>TVar x\<close> is \<^verbatim>\<open>{{ $x }}\<close>, \<open>TIf f body\<close> is
  \<^verbatim>\<open>{{ if .f }} body {{ end }}\<close> and \<open>TRange x f body\<close> is
  \<^verbatim>\<open>{{ range $x := .f }} body {{ end }}\<close>.
\<close>

datatype tnode =
    TText string
  | TField string
  | TVar string
  | TIf string "tnode list"
  | TRange string string "tnode list"

record env =
  http_Get :: "string \<Rightarrow> error + response"
  regexp_Compile :: "string \<Rightarrow> (string \<Rightarrow> string list) option"
  getResolvingURLs :: "string list \<Rightarrow> string list \<times> error option"
  debTemplateStr :: "string \<Rightarrow> string"
  template_Parse :: "string \<Rightarrow> error + tnode list"
  DriverDirectory :: string
  ModuleFullPath :: string

subsection \<open>Toolchain pinning\<close>

definition debianLLVMVersionFromKernelRelease :: "KernelRelease \<Rightarrow> string" where
  "debianLLVMVersionFromKernelRelease kr = (if Version kr = 5 then ''12'' else ''7'')"

subsection \<open>The kbuild package\<close>

text \<open>
  The format \<^verbatim>\<open>href="(linux-kbuild-%d\.%d.*%s\.deb)"\<close> of debianKbuildURLFromRelease,
  applied to its arguments by \<^verbatim>\<open>fmt.Sprintf\<close>.
\<close>

definition kbuild_rmatch :: "int \<Rightarrow> int \<Rightarrow> string \<Rightarrow> string" where
  "kbuild_rmatch v p arch =
     ''href='' @ dq @ ''(linux-kbuild-'' @ fmt_d v @ bs @ ''.'' @ fmt_d p @ ''.*'' @ arch
       @ bs @ ''.deb)'' @ dq"

definition kbuild_baseURL :: "KernelRelease \<Rightarrow> string" where
  "kbuild_baseURL kr =
     (if Version kr = 3 then ''http://mirrors.kernel.org/debian/pool/main/l/linux-tools/''
      else ''http://mirrors.kernel.org/debian/pool/main/l/linux/'')"

text \<open>
  Every function that uses the network returns, beside its Go result, the list of the
  URLs it requested with \<^verbatim>\<open>http.Get\<close>, in the order of the requests.
\<close>

definition debianKbuildURLFromRelease :: "env \<Rightarrow> KernelRelease \<Rightarrow> string go \<times> string list" where
  "debianKbuildURLFromRelease env kr =
     (case regexp_Compile env (kbuild_rmatch (Version kr) (PatchLevel kr) (Architecture kr)) of
        None \<Rightarrow> (Panic ''regexp: Compile'', [])
      | Some kbuildPattern \<Rightarrow>
          (let baseURL = kbuild_baseURL kr in
           (case http_Get env baseURL of
              Inl err \<Rightarrow> Return [] (Some err)
            | Inr resp \<Rightarrow>
                (case resp of
                   Inl err \<Rightarrow> Return [] (Some err)
                 | Inr body \<Rightarrow>
                     (let match = kbuildPattern body in
                      if length match \<noteq> 2 then Return [] (Some (Errorf ''kbuild not found''))
                      else Return (baseURL @ match ! 1) None)),
            [baseURL])))"

subsection \<open>The header packages\<close>

text \<open>
  The two formats of fetchDebianHeadersURLFromRelease, applied to their arguments:
  \<open>rmatch\<close> is \<^verbatim>\<open>href="(linux-headers-%d\.%d\.%d%s-(%s)_.*(%s|all)\.deb)"\<close> and \<open>rmatchNew\<close>
  is \<^verbatim>\<open>href="(linux-headers-[0-9]+\.[0-9]+\.[0-9]+-[0-9]+-(%s)_%d\.%d\.%d%s_(%s|all)\.deb)"\<close>.
\<close>

definition rmatch :: "int \<Rightarrow> int \<Rightarrow> int \<Rightarrow> string \<Rightarrow> string \<Rightarrow> string \<Rightarrow> string" where
  "rmatch v p s extra grp arch =
     ''href='' @ dq @ ''(linux-headers-'' @ fmt_d v @ bs @ ''.'' @ fmt_d p @ bs @ ''.''
       @ fmt_d s @ extra @ ''-('' @ grp @ '')_.*('' @ arch @ ''|all)'' @ bs @ ''.deb)'' @ dq"

definition rmatchNew :: "string \<Rightarrow> int \<Rightarrow> int \<Rightarrow> int \<Rightarrow> string \<Rightarrow> string \<Rightarrow> string" where
  "rmatchNew grp v p s extra arch =
     ''href='' @ dq @ ''(linux-headers-[0-9]+'' @ bs @ ''.[0-9]+'' @ bs @ ''.[0-9]+-[0-9]+-(''
       @ grp @ '')_'' @ fmt_d v @ bs @ ''.'' @ fmt_d p @ bs @ ''.'' @ fmt_d s @ extra
       @ ''_('' @ arch @ ''|all)'' @ bs @ ''.deb)'' @ dq"

text \<open>
  Lines 128 to 142: the fragment of the extraversion and the naming group that go into
  the patterns of the primary headers package.
\<close>

definition extraVersionPartial :: "KernelRelease \<Rightarrow> string" where
  "extraVersionPartial kr =
     (let partial = strings_TrimSuffix (FullExtraversion kr) (''-'' @ Architecture kr) in
      if strings_Contains (FullExtraversion kr) ''-cloud''
      then strings_TrimSuffix partial ''-cloud'' else partial)"

definition matchExtraGroup :: "KernelRelease \<Rightarrow> string" where
  "matchExtraGroup kr =
     (if strings_Contains (FullExtraversion kr) ''-cloud''
      then ''cloud-'' @ Architecture kr else Architecture kr)"

definition matchExtraGroupCommon :: string where
  "matchExtraGroupCommon = ''common''"

text \<open>
  Lines 156 to 169 (with \<open>grp = matchExtraGroup kr\<close> and the message of line 167) and
  lines 171 to 184 (with \<open>grp = matchExtraGroupCommon\<close> and the message of line 182):
  the older pattern, then the newer one when the older finds nothing.
\<close>

definition lookFor :: "env \<Rightarrow> KernelRelease \<Rightarrow> string \<Rightarrow> string \<Rightarrow> string \<Rightarrow> string list go" where
  "lookFor env kr grp notFound bodyStr =
     (case regexp_Compile env
             (rmatch (Version kr) (PatchLevel kr) (Sublevel kr) (extraVersionPartial kr) grp
                (Architecture kr)) of
        None \<Rightarrow> Panic ''regexp: Compile''
      | Some pattern \<Rightarrow>
          (let matches = pattern bodyStr in
           if length matches < 1 then
             (case regexp_Compile env
                     (rmatchNew grp (Version kr) (PatchLevel kr) (Sublevel kr)
                        (extraVersionPartial kr) (Architecture kr)) of
                None \<Rightarrow> Panic ''regexp: Compile''
              | Some patternNew \<Rightarrow>
                  (let matchesNew = patternNew bodyStr in
                   if length matchesNew < 1 then Return [] (Some (Errorf notFound))
                   else Return matchesNew None))
           else Return matches None))"

definition fetchDebianHeadersURLFromRelease ::
  "env \<Rightarrow> string \<Rightarrow> KernelRelease \<Rightarrow> string list go \<times> string list" where
  "fetchDebianHeadersURLFromRelease env baseURL kr =
     ((case http_Get env baseURL of
         Inl err \<Rightarrow> Return [] (Some err)
       | Inr resp \<Rightarrow>
           (case resp of
              Inl err \<Rightarrow> Return [] (Some err)
            | Inr bodyStr \<Rightarrow>
                (case lookFor env kr (matchExtraGroup kr) ''kernel headers not found'' bodyStr of
                   Panic m \<Rightarrow> Panic m
                 | Return _ (Some err) \<Rightarrow> Return [] (Some err)
                 | Return matches None \<Rightarrow>
                     (case lookFor env kr matchExtraGroupCommon
                             ''kernel headers common not found'' bodyStr of
                        Panic m \<Rightarrow> Panic m
                      | Return _ (Some err) \<Rightarrow> Return [] (Some err)
                      | Return matchesCommon None \<Rightarrow>
                          (if length matches < 2 \<or> length matchesCommon < 2
                           then Panic ''index out of range''
                           else Return [baseURL @ matches ! 1, baseURL @ matchesCommon ! 1]
                                  None))))),
      [baseURL])"

definition baseURLS :: "string list" where
  "baseURLS =
     [''http://security-cdn.debian.org/pool/main/l/linux/'',
      ''http://security-cdn.debian.org/pool/updates/main/l/linux/'',
      ''https://mirrors.edge.kernel.org/debian/pool/main/l/linux/'']"

text \<open>The loop of debianHeadersURLFromRelease over the mirrors that are left.\<close>

fun headersLoop :: "env \<Rightarrow> KernelRelease \<Rightarrow> string list \<Rightarrow> string list go \<times> string list" where
  "headersLoop env kr [] = (Return [] (Some (Errorf ''kernel headers not found'')), [])"
| "headersLoop env kr (u # us) =
     (case fetchDebianHeadersURLFromRelease env u kr of
        (Panic m, gets) \<Rightarrow> (Panic m, gets)
      | (Return urls None, gets) \<Rightarrow> (Return urls None, gets)
      | (Return urls (Some err), gets) \<Rightarrow>
          (case headersLoop env kr us of (r, gets') \<Rightarrow> (r, gets @ gets')))"

definition debianHeadersURLFromRelease :: "env \<Rightarrow> KernelRelease \<Rightarrow> string list go \<times> string list" where
  "debianHeadersURLFromRelease env kr = headersLoop env kr baseURLS"

text \<open>
  The mirror \<open>u\<close> fails: fetchDebianHeadersURLFromRelease returns an error for it, so
  that the loop goes on to the next mirror.
\<close>

definition fails :: "env \<Rightarrow> KernelRelease \<Rightarrow> string \<Rightarrow> bool" where
  "fails env kr u =
     (case fst (fetchDebianHeadersURLFromRelease env u kr) of
        Return urls (Some err) \<Rightarrow> True
      | _ \<Rightarrow> False)"

definition fetchDebianKernelURLs :: "env \<Rightarrow> KernelRelease \<Rightarrow> string list go \<times> string list" where
  "fetchDebianKernelURLs env kr =
     (case debianKbuildURLFromRelease env kr of
        (Panic m, gets) \<Rightarrow> (Panic m, gets)
      | (Return _ (Some err), gets) \<Rightarrow> (Return [] (Some err), gets)
      | (Return kbuildURL None, gets) \<Rightarrow>
          (case debianHeadersURLFromRelease env kr of
             (Panic m, gets') \<Rightarrow> (Panic m, gets @ gets')
           | (Return _ (Some err), gets') \<Rightarrow> (Return [] (Some err), gets @ gets')
           | (Return urls None, gets') \<Rightarrow> (Return (urls @ [kbuildURL]) None, gets @ gets')))"

subsection \<open>The build configuration and the template data\<close>

text \<open>
  Modelled from the spec: the struct \<^verbatim>\<open>Config\<close> and its part \<^verbatim>\<open>Build\<close> are declared in
  other files of the package. The fields are those Script reads; \<open>KernelUrls\<close> is \<open>None\<close>
  for the nil slice (no override) and \<open>Some us\<close> for a list of override URLs.
\<close>

record Build =
  DriverVersion :: string
  ModuleFilePath :: string
  ProbeFilePath :: string

record Config =
  DriverName :: string
  DownloadBaseURL :: string
  KernelUrls :: "string list option"
  Build :: Build

record debianTemplateData =
  td_DriverBuildDir :: string
  td_ModuleDownloadURL :: string
  td_KernelDownloadURLS :: "string list"
  td_KernelLocalVersion :: string
  td_ModuleDriverName :: string
  td_ModuleFullPath :: string
  td_BuildModule :: bool
  td_BuildProbe :: bool
  td_LLVMVersion :: string

subsection \<open>Executing a template\<close>

text \<open>
  \<^verbatim>\<open>parsed.Execute(buf, td)\<close> of text/template on the tree above. A field of the data is
  looked up by its name; a name that debianTemplateData does not have is an error of
  the execution. The result is what has been written to the buffer, with the error
  that stopped the execution, if any.
\<close>

datatype tval = VStr string | VBool bool | VList "string list"

definition field :: "debianTemplateData \<Rightarrow> string \<Rightarrow> tval option" where
  "field td f =
     (if f = ''DriverBuildDir'' then Some (VStr (td_DriverBuildDir td))
      else if f = ''ModuleDownloadURL'' then Some (VStr (td_ModuleDownloadURL td))
      else if f = ''KernelDownloadURLS'' then Some (VList (td_KernelDownloadURLS td))
      else if f = ''KernelLocalVersion'' then Some (VStr (td_KernelLocalVersion td))
      else if f = ''ModuleDriverName'' then Some (VStr (td_ModuleDriverName td))
      else if f = ''ModuleFullPath'' then Some (VStr (td_ModuleFullPath td))
      else if f = ''BuildModule'' then Some (VBool (td_BuildModule td))
      else if f = ''BuildProbe'' then Some (VBool (td_BuildProbe td))
      else if f = ''LLVMVersion'' then Some (VStr (td_LLVMVersion td))
      else None)"

text \<open>The truth of a value in \<^verbatim>\<open>{{ if }}\<close>, and its printed form.\<close>

fun truth :: "tval \<Rightarrow> bool" where
  "truth (VStr s) = (s \<noteq> [])"
| "truth (VBool b) = b"
| "truth (VList xs) = (xs \<noteq> [])"

fun join :: "string list \<Rightarrow> string" where
  "join [] = []"
| "join [x] = x"
| "join (x # y # ys) = x @ '' '' @ join (y # ys)"

fun printv :: "tval \<Rightarrow> string" where
  "printv (VStr s) = s"
| "printv (VBool b) = (if b then ''true'' else ''false'')"
| "printv (VList xs) = ''['' @ join xs @ '']''"

text \<open>Writing pieces one after the other, until the first that fails.\<close>

fun seq_out :: "(string \<times> error option) list \<Rightarrow> string \<times> error option" where
  "seq_out [] = ([], None)"
| "seq_out ((out, Some err) # rs) = (out, Some err)"
| "seq_out ((out, None) # rs) = (case seq_out rs of (out', e) \<Rightarrow> (out @ out', e))"

fun execute_node :: "debianTemplateData \<Rightarrow> (string \<times> string) list \<Rightarrow> tnode \<Rightarrow> string \<times> error option" where
  "execute_node td vars (TText s) = (s, None)"
| "execute_node td vars (TField f) =
     (case field td f of
        None \<Rightarrow> ([], Some (Errorf (''can not evaluate field '' @ f)))
      | Some v \<Rightarrow> (printv v, None))"
| "execute_node td vars (TVar x) =
     (case map_of vars x of
        None \<Rightarrow> ([], Some (Errorf (''undefined variable $'' @ x)))
      | Some s \<Rightarrow> (s, None))"
| "execute_node td vars (TIf f body) =
     (case field td f of
        None \<Rightarrow> ([], Some (Errorf (''can not evaluate field '' @ f)))
      | Some v \<Rightarrow> if truth v then seq_out (map (execute_node td vars) body) else ([], None))"
| "execute_node td vars (TRange x f body) =
     (case field td f of
        None \<Rightarrow> ([], Some (Errorf (''can not evaluate field '' @ f)))
      | Some (VList items) \<Rightarrow>
          seq_out (map (\<lambda>item. seq_out (map (execute_node td ((x, item) # vars)) body)) items)
      | Some _ \<Rightarrow> ([], Some (Errorf (''range can not iterate over '' @ f))))"

definition Execute :: "tnode list \<Rightarrow> debianTemplateData \<Rightarrow> string \<times> error option" where
  "Execute parsed td = seq_out (map (execute_node td []) parsed)"

subsection \<open>Script\<close>

text \<open>
  Lines 40 to 50 of Script: the URLs of the kernel packages, from the mirrors when the
  configuration has no override, through getResolvingURLs in both cases.
\<close>

definition Script_urls :: "env \<Rightarrow> Config \<Rightarrow> KernelRelease \<Rightarrow> string list go \<times> string list" where
  "Script_urls env c kr =
     (case KernelUrls c of
        None \<Rightarrow>
          (case fetchDebianKernelURLs env kr of
             (Panic m, gets) \<Rightarrow> (Panic m, gets)
           | (Return _ (Some err), gets) \<Rightarrow> (Return [] (Some err), gets)
           | (Return kurls None, gets) \<Rightarrow>
               (case getResolvingURLs env kurls of (urls, err) \<Rightarrow> (Return urls err, gets)))
      | Some kernelUrls \<Rightarrow>
          (case getResolvingURLs env kernelUrls of (urls, err) \<Rightarrow> (Return urls err, [])))"

text \<open>Lines 62 to 72 of Script.\<close>

definition templateData :: "env \<Rightarrow> Config \<Rightarrow> KernelRelease \<Rightarrow> string list \<Rightarrow> debianTemplateData" where
  "templateData env c kr urls =
     \<lparr> td_DriverBuildDir = DriverDirectory env,
       td_ModuleDownloadURL = DownloadBaseURL c @ ''/'' @ DriverVersion (Build c) @ ''.tar.gz'',
       td_KernelDownloadURLS = urls,
       td_KernelLocalVersion = FullExtraversion kr,
       td_ModuleDriverName = DriverName c,
       td_ModuleFullPath = ModuleFullPath env,
       td_BuildModule = (length (ModuleFilePath (Build c)) > 0),
       td_BuildProbe = (length (ProbeFilePath (Build c)) > 0),
       td_LLVMVersion = debianLLVMVersionFromKernelRelease kr \<rparr>"

definition Script :: "env \<Rightarrow> Config \<Rightarrow> KernelRelease \<Rightarrow> string go \<times> string list" where
  "Script env c kr =
     (case template_Parse env (debTemplateStr env (Architecture kr)) of
        Inl err \<Rightarrow> (Return [] (Some err), [])
      | Inr parsed \<Rightarrow>
          (case Script_urls env c kr of
             (Panic m, gets) \<Rightarrow> (Panic m, gets)
           | (Return _ (Some err), gets) \<Rightarrow> (Return [] (Some err), gets)
           | (Return urls None, gets) \<Rightarrow>
               (if length urls < 3
                then (Return [] (Some (Errorf ''specific kernel headers not found'')), gets)
                else
                  (case Execute parsed (templateData env c kr urls) of
                     (buf, Some err) \<Rightarrow> (Return [] (Some err), gets)
                   | (buf, None) \<Rightarrow> (Return buf None, gets)))))"

subsection \<open>The shape of the Debian template\<close>

text \<open>
  Modelled from the spec: the embedded template templates/debian.sh is not among the
  sources. By the spec (4.4 and 6) the script is a preamble that acquires the sources
  and the kernel headers and is always present, followed by the module-build section
  under the module-build toggle and the probe-build section under the probe-build
  toggle. The toggles and the blank line between the two sections are those of the
  sibling template among the sources (lines 26 to 41), whose data has the same two
  fields. The texts of the three parts are parameters.
\<close>

definition debianTemplateShape :: "tnode list \<Rightarrow> tnode list \<Rightarrow> tnode list \<Rightarrow> tnode list" where
  "debianTemplateShape preamble moduleSection probeSection =
     preamble @
     [TIf ''BuildModule'' moduleSection, TText ''\<newline>\<newline>'', TIf ''BuildProbe'' probeSection]"

section \<open>A test environment\<close>

text \<open>
  A concrete environment, on which the theorems below are instantiated. The release is
  5.10.0-8-amd64. The regular expression library is given by its answers on the index
  pages of the environment for the patterns of the releases used here; every other
  pattern compiles and finds nothing.
\<close>

definition kr_5_10 :: KernelRelease where
  "kr_5_10 = \<lparr> Version = 5, PatchLevel = 10, Sublevel = 0,
                FullExtraversion = ''-8-amd64'', Architecture = ''amd64'' \<rparr>"

definition deb_headers :: string where
  "deb_headers = ''linux-headers-5.10.0-8-amd64_5.10.46-4_amd64.deb''"

definition deb_common :: string where
  "deb_common = ''linux-headers-5.10.0-8-common_5.10.46-4_all.deb''"

definition deb_kbuild :: string where
  "deb_kbuild = ''linux-kbuild-5.10_5.10.46-4_amd64.deb''"

definition href :: "string \<Rightarrow> string" where
  "href file = ''href='' @ dq @ file @ dq"

definition page_headers :: string where
  "page_headers = ''<a '' @ href deb_headers @ ''>'' @ ''\<newline>'' @ ''<a '' @ href deb_common @ ''>''"

definition page_primary :: string where
  "page_primary = ''<a '' @ href deb_headers @ ''>''"

definition page_kbuild :: string where
  "page_kbuild = ''<a '' @ href deb_kbuild @ ''>''"

text \<open>
  The release of the comment at lines 132 and 133, 5.10.103-1, whose packages only the
  newer naming scheme finds.
\<close>

definition kr_5_10_103 :: KernelRelease where
  "kr_5_10_103 = \<lparr> Version = 5, PatchLevel = 10, Sublevel = 103,
                    FullExtraversion = ''-1'', Architecture = ''amd64'' \<rparr>"

definition deb_headers_new :: string where
  "deb_headers_new = ''linux-headers-5.10.0-12-amd64_5.10.103-1_amd64.deb''"

definition deb_common_new :: string where
  "deb_common_new = ''linux-headers-5.10.0-12-common_5.10.103-1_all.deb''"

definition page_new :: string where
  "page_new = ''<a '' @ href deb_headers_new @ ''>'' @ ''\<newline>'' @ ''<a '' @ href deb_common_new @ ''>''"

text \<open>A release of major version 3, with the page of the linux-tools pool.\<close>

definition kr_3_16 :: KernelRelease where
  "kr_3_16 = \<lparr> Version = 3, PatchLevel = 16, Sublevel = 0,
                FullExtraversion = ''-4-amd64'', Architecture = ''amd64'' \<rparr>"

definition deb_kbuild_3_16 :: string where
  "deb_kbuild_3_16 = ''linux-kbuild-3.16_3.16.7-ckt25-1_amd64.deb''"

definition page_tools :: string where
  "page_tools = ''<a '' @ href deb_kbuild_3_16 @ ''>''"

text \<open>
  The release of the comment at line 138, 4.19.0-6-cloud-amd64, and a release whose
  extraversion has the marker before another flavour tag.
\<close>

definition kr_cloud :: KernelRelease where
  "kr_cloud = \<lparr> Version = 4, PatchLevel = 19, Sublevel = 0,
                 FullExtraversion = ''-6-cloud-amd64'', Architecture = ''amd64'' \<rparr>"

definition kr_cloud_rt :: KernelRelease where
  "kr_cloud_rt = \<lparr> Version = 4, PatchLevel = 19, Sublevel = 0,
                    FullExtraversion = ''-6-cloud-rt-amd64'', Architecture = ''amd64'' \<rparr>"

definition test_overrides :: "string list" where
  "test_overrides = [''https://example.com/a.deb'', ''https://example.com/b.deb'']"

definition mirror_main :: string where
  "mirror_main = ''http://security-cdn.debian.org/pool/main/l/linux/''"

definition mirror_updates :: string where
  "mirror_updates = ''http://security-cdn.debian.org/pool/updates/main/l/linux/''"

definition mirror_edge :: string where
  "mirror_edge = ''https://mirrors.edge.kernel.org/debian/pool/main/l/linux/''"

definition mirror_kbuild :: string where
  "mirror_kbuild = ''http://mirrors.kernel.org/debian/pool/main/l/linux/''"

definition mirror_tools :: string where
  "mirror_tools = ''http://mirrors.kernel.org/debian/pool/main/l/linux-tools/''"

text \<open>
  Four networks. In \<open>test_http\<close> the first headers mirror refuses the connection and
  the two others serve the same index page; the two kbuild pools serve their pages. In \<open>test_http_partial\<close> the first headers
  mirror serves a page with the primary headers package alone. In \<open>test_http_new\<close> the
  first headers mirror serves the page of the release 5.10.103-1. In
  \<open>test_http_kbuild_down\<close> the kbuild mirror refuses the connection, while every
  headers mirror serves the index page.
\<close>

definition test_http :: "string \<Rightarrow> error + response" where
  "test_http url =
     (if url = mirror_main then Inl (Errorf ''connection refused'')
      else if url = mirror_updates then Inr (Inr page_headers)
      else if url = mirror_edge then Inr (Inr page_headers)
      else if url = mirror_kbuild then Inr (Inr page_kbuild)
      else if url = mirror_tools then Inr (Inr page_tools)
      else Inr (Inr ''404 Not Found''))"

definition test_http_partial :: "string \<Rightarrow> error + response" where
  "test_http_partial url = (if url = mirror_main then Inr (Inr page_primary) else test_http url)"

definition test_http_new :: "string \<Rightarrow> error + response" where
  "test_http_new url = (if url = mirror_main then Inr (Inr page_new) else test_http url)"

definition test_http_kbuild_down :: "string \<Rightarrow> error + response" where
  "test_http_kbuild_down url =
     (if url = mirror_kbuild then Inl (Errorf ''connection refused'')
      else if url = mirror_main then Inr (Inr page_headers)
      else test_http url)"

definition pattern_headers :: string where
  "pattern_headers =
     ''href='' @ dq @ ''(linux-headers-5'' @ bs @ ''.10'' @ bs @ ''.0-8-(amd64)_.*(amd64|all)''
       @ bs @ ''.deb)'' @ dq"

definition pattern_common :: string where
  "pattern_common =
     ''href='' @ dq @ ''(linux-headers-5'' @ bs @ ''.10'' @ bs @ ''.0-8-(common)_.*(amd64|all)''
       @ bs @ ''.deb)'' @ dq"

definition pattern_kbuild :: string where
  "pattern_kbuild =
     ''href='' @ dq @ ''(linux-kbuild-5'' @ bs @ ''.10.*amd64'' @ bs @ ''.deb)'' @ dq"

definition pattern_kbuild_3_16 :: string where
  "pattern_kbuild_3_16 =
     ''href='' @ dq @ ''(linux-kbuild-3'' @ bs @ ''.16.*amd64'' @ bs @ ''.deb)'' @ dq"

definition pattern_headers_new :: string where
  "pattern_headers_new =
     ''href='' @ dq @ ''(linux-headers-[0-9]+'' @ bs @ ''.[0-9]+'' @ bs @ ''.[0-9]+-[0-9]+-(amd64)_5''
       @ bs @ ''.10'' @ bs @ ''.103-1_(amd64|all)'' @ bs @ ''.deb)'' @ dq"

definition pattern_common_new :: string where
  "pattern_common_new =
     ''href='' @ dq @ ''(linux-headers-[0-9]+'' @ bs @ ''.[0-9]+'' @ bs @ ''.[0-9]+-[0-9]+-(common)_5''
       @ bs @ ''.10'' @ bs @ ''.103-1_(amd64|all)'' @ bs @ ''.deb)'' @ dq"

definition test_matches :: "((string \<times> string) \<times> string list) list" where
  "test_matches =
     [((pattern_headers, page_headers), [href deb_headers, deb_headers, ''amd64'', ''amd64'']),
      ((pattern_headers, page_primary), [href deb_headers, deb_headers, ''amd64'', ''amd64'']),
      ((pattern_common, page_headers), [href deb_common, deb_common, ''common'', ''all'']),
      ((pattern_kbuild, page_kbuild), [href deb_kbuild, deb_kbuild]),
      ((pattern_kbuild_3_16, page_tools), [href deb_kbuild_3_16, deb_kbuild_3_16]),
      ((pattern_headers_new, page_new),
         [href deb_headers_new, deb_headers_new, ''amd64'', ''amd64'']),
      ((pattern_common_new, page_new),
         [href deb_common_new, deb_common_new, ''common'', ''all''])]"

definition test_regexp :: "string \<Rightarrow> (string \<Rightarrow> string list) option" where
  "test_regexp p =
     Some (\<lambda>body. case map_of test_matches (p, body) of Some m \<Rightarrow> m | None \<Rightarrow> [])"

text \<open>
  The helper getResolvingURLs of the test environment keeps the URLs that are not in
  the list \<open>down\<close>, and fails when none is left.
\<close>

definition test_resolving :: "string list \<Rightarrow> string list \<Rightarrow> string list \<times> error option" where
  "test_resolving down urls =
     (let results = filter (\<lambda>u. u \<notin> set down) urls in
      if results = [] then ([], Some (Errorf ''kernel not found'')) else (results, None))"

definition test_env :: "(string \<Rightarrow> error + response) \<Rightarrow> string list \<Rightarrow> tnode list \<Rightarrow> env" where
  "test_env get down tree =
     \<lparr> http_Get = get,
       regexp_Compile = test_regexp,
       getResolvingURLs = test_resolving down,
       debTemplateStr = (\<lambda>arch. ''debian.sh for '' @ arch),
       template_Parse = (\<lambda>text. Inr tree),
       DriverDirectory = ''/tmp/driver'',
       ModuleFullPath = ''/tmp/driver/module.ko'' \<rparr>"

text \<open>
  A small template of the Debian shape: a preamble with the loop over the URLs, and
  the two sections of the sibling template (lines 26 to 41), shortened.
\<close>

definition test_preamble :: "tnode list" where
  "test_preamble =
     [TText ''mkdir '', TField ''DriverBuildDir'', TText ''\<newline>'',
      TRange ''url'' ''KernelDownloadURLS'' [TText ''curl '', TVar ''url'', TText ''\<newline>'']]"

definition test_moduleSection :: "tnode list" where
  "test_moduleSection =
     [TText ''\<newline># Build the module\<newline>mv '', TField ''ModuleDriverName'', TText ''.ko '',
      TField ''ModuleFullPath'', TText ''\<newline>'']"

definition test_probeSection :: "tnode list" where
  "test_probeSection =
     [TText ''\<newline># Build the eBPF probe\<newline>cd '', TField ''DriverBuildDir'', TText ''/bpf\<newline>'']"

definition test_tree :: "tnode list" where
  "test_tree = debianTemplateShape test_preamble test_moduleSection test_probeSection"

text \<open>
  A template that names a field debianTemplateData does not have, as line 19 of the
  sibling template does.
\<close>

definition test_tree_bad :: "tnode list" where
  "test_tree_bad = [TText ''yum install kernel-devel-0:'', TField ''KernelPackage'']"

definition test_config :: Config where
  "test_config =
     \<lparr> DriverName = ''falco'', DownloadBaseURL = ''https://example.com/libs'',
       KernelUrls = None,
       Build = \<lparr> DriverVersion = ''1.0.0'', ModuleFilePath = ''/out/falco.ko'',
                 ProbeFilePath = [] \<rparr> \<rparr>"

section \<open>Properties\<close>

text \<open>
  C5. Toolchain pinning is a total function of the major version alone: major version 5
  gives LLVM 12, every other major version gives LLVM 7.
\<close>

theorem C5_llvm_version_pinning:
  "debianLLVMVersionFromKernelRelease kr = (if Version kr = 5 then ''12'' else ''7'')"
  by (simp add: debianLLVMVersionFromKernelRelease_def)

subsection \<open>The loop over the header mirrors\<close>

lemma fetch_gets: "snd (fetchDebianHeadersURLFromRelease env u kr) = [u]"
  by (simp add: fetchDebianHeadersURLFromRelease_def)

lemma fails_iff:
  "fails env kr u \<longleftrightarrow>
     (\<exists>urls err. fst (fetchDebianHeadersURLFromRelease env u kr) = Return urls (Some err))"
  by (auto simp: fails_def split: go.splits option.splits)

text \<open>What a successful fetch from one mirror has returned.\<close>

lemma fetch_success:
  assumes "fst (fetchDebianHeadersURLFromRelease env u kr) = Return urls None"
  shows "\<exists>body m mc. http_Get env u = Inr (Inr body)
           \<and> lookFor env kr (matchExtraGroup kr) ''kernel headers not found'' body = Return m None
           \<and> lookFor env kr matchExtraGroupCommon ''kernel headers common not found'' body
               = Return mc None
           \<and> urls = [u @ m ! 1, u @ mc ! 1]"
  using assms
  by (auto simp: fetchDebianHeadersURLFromRelease_def
           split: sum.splits go.splits option.splits if_splits)

text \<open>Mirrors that fail are passed over: each adds its request and nothing else.\<close>

lemma headersLoop_skip:
  "\<forall>v \<in> set pre. fails env kr v \<Longrightarrow>
     headersLoop env kr (pre @ rest) =
       (fst (headersLoop env kr rest), pre @ snd (headersLoop env kr rest))"
proof (induction pre)
  case Nil
  then show ?case by simp
next
  case (Cons v vs)
  then obtain urls err where
    "fst (fetchDebianHeadersURLFromRelease env v kr) = Return urls (Some err)"
    by (auto simp: fails_iff)
  moreover have "snd (fetchDebianHeadersURLFromRelease env v kr) = [v]"
    by (rule fetch_gets)
  ultimately have f: "fetchDebianHeadersURLFromRelease env v kr = (Return urls (Some err), [v])"
    by (simp add: prod_eq_iff)
  from Cons have "headersLoop env kr (vs @ rest) =
       (fst (headersLoop env kr rest), vs @ snd (headersLoop env kr rest))"
    by simp
  with f show ?case by simp
qed

text \<open>The first mirror that succeeds ends the loop.\<close>

lemma headersLoop_hit:
  "fst (fetchDebianHeadersURLFromRelease env u kr) = Return urls None \<Longrightarrow>
     headersLoop env kr (u # post) = (Return urls None, [u])"
  using fetch_gets [of env u kr]
  by (cases "fetchDebianHeadersURLFromRelease env u kr") simp

lemma headersLoop_success:
  "fst (headersLoop env kr us) = Return urls None \<Longrightarrow>
     \<exists>pre u post. us = pre @ u # post \<and> (\<forall>v \<in> set pre. fails env kr v)
        \<and> fst (fetchDebianHeadersURLFromRelease env u kr) = Return urls None
        \<and> snd (headersLoop env kr us) = pre @ [u]"
proof (induction us)
  case Nil
  then show ?case by simp
next
  case (Cons v vs)
  obtain r g where f: "fetchDebianHeadersURLFromRelease env v kr = (r, g)"
    by (cases "fetchDebianHeadersURLFromRelease env v kr")
  with fetch_gets [of env v kr] have g: "g = [v]" by simp
  show ?case
  proof (cases r)
    case (Panic m)
    with Cons.prems f show ?thesis by simp
  next
    case (Return us' e)
    show ?thesis
    proof (cases e)
      case None
      with Return Cons.prems f g
      have "fst (fetchDebianHeadersURLFromRelease env v kr) = Return urls None"
        and "snd (headersLoop env kr (v # vs)) = [] @ [v]"
        by simp_all
      then show ?thesis
        by (intro exI [of _ "[]"] exI [of _ v] exI [of _ vs]) simp
    next
      case (Some err)
      with Return f have fl: "fails env kr v"
        by (auto simp: fails_iff)
      from Some Return Cons.prems f have "fst (headersLoop env kr vs) = Return urls None"
        by (simp split: prod.splits)
      from Cons.IH [OF this] obtain pre u post where u: "vs = pre @ u # post"
        "\<forall>v \<in> set pre. fails env kr v"
        "fst (fetchDebianHeadersURLFromRelease env u kr) = Return urls None"
        "snd (headersLoop env kr vs) = pre @ [u]"
        by blast
      from Some Return f g u(4) have "snd (headersLoop env kr (v # vs)) = (v # pre) @ [u]"
        by (auto split: prod.splits)
      with u fl show ?thesis
        by (intro exI [of _ "v # pre"] exI [of _ u] exI [of _ post]) simp
    qed
  qed
qed

lemma headersLoop_exhausted:
  "\<forall>v \<in> set us. fails env kr v \<Longrightarrow>
     headersLoop env kr us = (Return [] (Some (Errorf ''kernel headers not found'')), us)"
  using headersLoop_skip [of us env kr "[]"] by simp

lemma strings_HasPrefix_append: "strings_HasPrefix (p @ s) p"
  by (induction p) simp_all

text \<open>
  C9. When the resolution of the headers succeeds, both URLs have been read from the
  index page of one mirror of the list and carry its base URL: the first is the match
  for the primary headers package, the second the match for the common one. A mirror
  whose page has the primary headers package and not the common one returns an error,
  and the loop goes on with the mirrors after it.
\<close>

theorem C9_headers_from_one_mirror:
  "(fst (debianHeadersURLFromRelease env kr) = Return urls None \<longrightarrow>
      (\<exists>u body m mc. u \<in> set baseURLS \<and> http_Get env u = Inr (Inr body)
         \<and> lookFor env kr (matchExtraGroup kr) ''kernel headers not found'' body = Return m None
         \<and> lookFor env kr matchExtraGroupCommon ''kernel headers common not found'' body
             = Return mc None
         \<and> urls = [u @ m ! 1, u @ mc ! 1]
         \<and> strings_HasPrefix (urls ! 0) u \<and> strings_HasPrefix (urls ! 1) u))
   \<and> (http_Get env v = Inr (Inr page)
        \<and> lookFor env kr (matchExtraGroup kr) ''kernel headers not found'' page = Return pm None
        \<and> lookFor env kr matchExtraGroupCommon ''kernel headers common not found'' page
            = Return pc (Some err) \<longrightarrow>
      fetchDebianHeadersURLFromRelease env v kr = (Return [] (Some err), [v])
      \<and> headersLoop env kr (v # vs) =
          (fst (headersLoop env kr vs), v # snd (headersLoop env kr vs)))"
proof (intro conjI impI)
  assume "fst (debianHeadersURLFromRelease env kr) = Return urls None"
  then have "fst (headersLoop env kr baseURLS) = Return urls None"
    by (simp add: debianHeadersURLFromRelease_def)
  from headersLoop_success [OF this] obtain pre u post where
    u: "baseURLS = pre @ u # post"
      "fst (fetchDebianHeadersURLFromRelease env u kr) = Return urls None"
    by blast
  from fetch_success [OF u(2)] obtain body m mc where
    b: "http_Get env u = Inr (Inr body)"
      "lookFor env kr (matchExtraGroup kr) ''kernel headers not found'' body = Return m None"
      "lookFor env kr matchExtraGroupCommon ''kernel headers common not found'' body
         = Return mc None"
      "urls = [u @ m ! 1, u @ mc ! 1]"
    by blast
  from u(1) have "u \<in> set baseURLS"
    by (metis in_set_conv_decomp)
  with b show "\<exists>u body m mc. u \<in> set baseURLS \<and> http_Get env u = Inr (Inr body)
         \<and> lookFor env kr (matchExtraGroup kr) ''kernel headers not found'' body = Return m None
         \<and> lookFor env kr matchExtraGroupCommon ''kernel headers common not found'' body
             = Return mc None
         \<and> urls = [u @ m ! 1, u @ mc ! 1]
         \<and> strings_HasPrefix (urls ! 0) u \<and> strings_HasPrefix (urls ! 1) u"
    by (intro exI [of _ u] exI [of _ body] exI [of _ m] exI [of _ mc])
       (simp add: strings_HasPrefix_append)
next
  assume a: "http_Get env v = Inr (Inr page)
        \<and> lookFor env kr (matchExtraGroup kr) ''kernel headers not found'' page = Return pm None
        \<and> lookFor env kr matchExtraGroupCommon ''kernel headers common not found'' page
            = Return pc (Some err)"
  then show f: "fetchDebianHeadersURLFromRelease env v kr = (Return [] (Some err), [v])"
    by (simp add: fetchDebianHeadersURLFromRelease_def)
  then have "fails env kr v"
    by (simp add: fails_def)
  then show "headersLoop env kr (v # vs) =
          (fst (headersLoop env kr vs), v # snd (headersLoop env kr vs))"
    using headersLoop_skip [of "[v]" env kr vs] by simp
qed

theorem C9_headers_from_one_mirror_witness:
  "fst (debianHeadersURLFromRelease (test_env test_http_partial [] test_tree) kr_5_10) =
     Return [mirror_updates @ deb_headers, mirror_updates @ deb_common] None
   \<and> mirror_updates \<in> set baseURLS
   \<and> strings_HasPrefix (mirror_updates @ deb_headers) mirror_updates
   \<and> strings_HasPrefix (mirror_updates @ deb_common) mirror_updates
   \<and> fetchDebianHeadersURLFromRelease (test_env test_http_partial [] test_tree) mirror_main kr_5_10
       = (Return [] (Some (Errorf ''kernel headers common not found'')), [mirror_main])
   \<and> headersLoop (test_env test_http_partial [] test_tree) kr_5_10 [mirror_main, mirror_updates]
       = (Return [mirror_updates @ deb_headers, mirror_updates @ deb_common] None,
          [mirror_main, mirror_updates])"
proof -
  let ?env = "test_env test_http_partial [] test_tree"
  let ?urls = "[mirror_updates @ deb_headers, mirror_updates @ deb_common]"
  have ok: "fst (debianHeadersURLFromRelease ?env kr_5_10) = Return ?urls None"
    by code_simp
  have page: "http_Get ?env mirror_main = Inr (Inr page_primary)
        \<and> lookFor ?env kr_5_10 (matchExtraGroup kr_5_10) ''kernel headers not found'' page_primary
            = Return [href deb_headers, deb_headers, ''amd64'', ''amd64''] None
        \<and> lookFor ?env kr_5_10 matchExtraGroupCommon ''kernel headers common not found''
            page_primary = Return [] (Some (Errorf ''kernel headers common not found''))"
    by code_simp
  have rest: "headersLoop ?env kr_5_10 [mirror_updates] = (Return ?urls None, [mirror_updates])"
    by code_simp
  have mem: "mirror_updates \<in> set baseURLS"
    by code_simp
  from C9_headers_from_one_mirror
         [of ?env kr_5_10 ?urls mirror_main page_primary
             "[href deb_headers, deb_headers, ''amd64'', ''amd64'']" "[]"
             "Errorf ''kernel headers common not found''" "[mirror_updates]"]
       ok page rest mem
  show ?thesis
    by (simp add: strings_HasPrefix_append)
qed

text \<open>
  C10. When the resolution from the mirrors succeeds, fetchDebianKernelURLs returns
  exactly three URLs: the primary headers, the common headers and, last, the kbuild
  package.
\<close>

theorem C10_three_urls_in_order:
  "fst (fetchDebianKernelURLs env kr) = Return urls None \<Longrightarrow>
     \<exists>u body m mc kbuildURL.
        urls = [u @ m ! 1, u @ mc ! 1, kbuildURL] \<and> length urls = 3
        \<and> u \<in> set baseURLS \<and> http_Get env u = Inr (Inr body)
        \<and> lookFor env kr (matchExtraGroup kr) ''kernel headers not found'' body = Return m None
        \<and> lookFor env kr matchExtraGroupCommon ''kernel headers common not found'' body
            = Return mc None
        \<and> fst (debianHeadersURLFromRelease env kr) = Return [u @ m ! 1, u @ mc ! 1] None
        \<and> fst (debianKbuildURLFromRelease env kr) = Return kbuildURL None
        \<and> last urls = kbuildURL"
proof -
  assume a: "fst (fetchDebianKernelURLs env kr) = Return urls None"
  obtain rk gk where k: "debianKbuildURLFromRelease env kr = (rk, gk)"
    by (cases "debianKbuildURLFromRelease env kr")
  obtain rh gh where h: "debianHeadersURLFromRelease env kr = (rh, gh)"
    by (cases "debianHeadersURLFromRelease env kr")
  from a k h obtain kbuildURL hs where
    r: "rk = Return kbuildURL None" "rh = Return hs None" "urls = hs @ [kbuildURL]"
    by (auto simp: fetchDebianKernelURLs_def split: go.splits option.splits)
  from h r have "fst (headersLoop env kr baseURLS) = Return hs None"
    by (simp add: debianHeadersURLFromRelease_def)
  from headersLoop_success [OF this] obtain pre u post where
    u: "baseURLS = pre @ u # post"
      "fst (fetchDebianHeadersURLFromRelease env u kr) = Return hs None"
    by blast
  from fetch_success [OF u(2)] obtain body m mc where
    b: "http_Get env u = Inr (Inr body)"
      "lookFor env kr (matchExtraGroup kr) ''kernel headers not found'' body = Return m None"
      "lookFor env kr matchExtraGroupCommon ''kernel headers common not found'' body
         = Return mc None"
      "hs = [u @ m ! 1, u @ mc ! 1]"
    by blast
  from u(1) have "u \<in> set baseURLS"
    by (metis in_set_conv_decomp)
  with b r k h show ?thesis
    by (intro exI [of _ u] exI [of _ body] exI [of _ m] exI [of _ mc] exI [of _ kbuildURL])
       simp
qed

theorem C10_three_urls_in_order_witness:
  "fst (fetchDebianKernelURLs (test_env test_http [] test_tree) kr_5_10) =
     Return [mirror_updates @ deb_headers, mirror_updates @ deb_common,
             mirror_kbuild @ deb_kbuild] None
   \<and> (\<exists>u body m mc kbuildURL.
        [mirror_updates @ deb_headers, mirror_updates @ deb_common, mirror_kbuild @ deb_kbuild]
          = [u @ m ! 1, u @ mc ! 1, kbuildURL]
        \<and> fst (debianKbuildURLFromRelease (test_env test_http [] test_tree) kr_5_10)
            = Return kbuildURL None)"
proof -
  let ?env = "test_env test_http [] test_tree"
  have ok: "fst (fetchDebianKernelURLs ?env kr_5_10) =
     Return [mirror_updates @ deb_headers, mirror_updates @ deb_common,
             mirror_kbuild @ deb_kbuild] None"
    by code_simp
  from C10_three_urls_in_order [OF ok] ok show ?thesis
    by blast
qed

text \<open>
  C6. The kbuild package is looked for in one index page: that of the linux-tools pool
  when the major version is 3, that of the linux pool for every other major version.
  No other page is requested, and the URL returned starts with the URL of that pool.
\<close>

theorem C6_kbuild_pool:
  "regexp_Compile env (kbuild_rmatch (Version kr) (PatchLevel kr) (Architecture kr)) = Some pattern
     \<Longrightarrow>
   snd (debianKbuildURLFromRelease env kr) =
     [if Version kr = 3 then ''http://mirrors.kernel.org/debian/pool/main/l/linux-tools/''
      else ''http://mirrors.kernel.org/debian/pool/main/l/linux/'']
   \<and> (\<forall>url. fst (debianKbuildURLFromRelease env kr) = Return url None \<longrightarrow>
         (\<exists>body. http_Get env
                   (if Version kr = 3
                    then ''http://mirrors.kernel.org/debian/pool/main/l/linux-tools/''
                    else ''http://mirrors.kernel.org/debian/pool/main/l/linux/'')
                  = Inr (Inr body)
            \<and> length (pattern body) = 2
            \<and> url = (if Version kr = 3
                     then ''http://mirrors.kernel.org/debian/pool/main/l/linux-tools/''
                     else ''http://mirrors.kernel.org/debian/pool/main/l/linux/'')
                    @ pattern body ! 1))"
  by (auto simp: debianKbuildURLFromRelease_def kbuild_baseURL_def Let_def
           split: sum.splits if_splits)

theorem C6_kbuild_pool_witness:
  "debianKbuildURLFromRelease (test_env test_http [] test_tree) kr_3_16 =
     (Return (''http://mirrors.kernel.org/debian/pool/main/l/linux-tools/'' @ deb_kbuild_3_16) None,
      [''http://mirrors.kernel.org/debian/pool/main/l/linux-tools/''])
   \<and> debianKbuildURLFromRelease (test_env test_http [] test_tree) kr_5_10 =
     (Return (''http://mirrors.kernel.org/debian/pool/main/l/linux/'' @ deb_kbuild) None,
      [''http://mirrors.kernel.org/debian/pool/main/l/linux/''])"
proof -
  let ?env = "test_env test_http [] test_tree"
  let ?p3 = "\<lambda>body. case map_of test_matches
                 (kbuild_rmatch (Version kr_3_16) (PatchLevel kr_3_16) (Architecture kr_3_16), body)
               of Some m \<Rightarrow> m | None \<Rightarrow> []"
  let ?p5 = "\<lambda>body. case map_of test_matches
                 (kbuild_rmatch (Version kr_5_10) (PatchLevel kr_5_10) (Architecture kr_5_10), body)
               of Some m \<Rightarrow> m | None \<Rightarrow> []"
  have c3: "regexp_Compile ?env
              (kbuild_rmatch (Version kr_3_16) (PatchLevel kr_3_16) (Architecture kr_3_16))
            = Some ?p3"
    by (simp add: test_env_def test_regexp_def)
  have c5: "regexp_Compile ?env
              (kbuild_rmatch (Version kr_5_10) (PatchLevel kr_5_10) (Architecture kr_5_10))
            = Some ?p5"
    by (simp add: test_env_def test_regexp_def)
  have v: "Version kr_3_16 = 3" "Version kr_5_10 \<noteq> 3"
    by (simp_all add: kr_3_16_def kr_5_10_def)
  have r3: "fst (debianKbuildURLFromRelease ?env kr_3_16) =
     Return (''http://mirrors.kernel.org/debian/pool/main/l/linux-tools/'' @ deb_kbuild_3_16) None"
    by code_simp
  have r5: "fst (debianKbuildURLFromRelease ?env kr_5_10) =
     Return (''http://mirrors.kernel.org/debian/pool/main/l/linux/'' @ deb_kbuild) None"
    by code_simp
  from C6_kbuild_pool [OF c3] v
  have "snd (debianKbuildURLFromRelease ?env kr_3_16) =
          [''http://mirrors.kernel.org/debian/pool/main/l/linux-tools/'']"
    by simp
  moreover from C6_kbuild_pool [OF c5] v
  have "snd (debianKbuildURLFromRelease ?env kr_5_10) =
          [''http://mirrors.kernel.org/debian/pool/main/l/linux/'']"
    by simp
  ultimately show ?thesis
    using r3 r5 by (simp add: prod_eq_iff)
qed

text \<open>
  C2, as amended. The two header roles are resolved together over the list of three
  mirrors, in its order: mirrors that fail, by a transport error, a read error or a
  package that is not found, are passed over without their error being returned; the
  first mirror that succeeds gives the result and no mirror after it is requested; when
  all three fail the error is the fixed "kernel headers not found". The kbuild role
  has one mirror and no fallback: a transport error or a missing match on that mirror
  is returned at once by debianKbuildURLFromRelease and by fetchDebianKernelURLs, and
  no other page is requested.
\<close>

theorem C2_mirror_fallback:
  "(i < length baseURLS \<and> (\<forall>j<i. fails env kr (baseURLS ! j))
      \<and> fst (fetchDebianHeadersURLFromRelease env (baseURLS ! i) kr) = Return urls None \<longrightarrow>
    debianHeadersURLFromRelease env kr = (Return urls None, take (Suc i) baseURLS))
   \<and> ((\<forall>v \<in> set baseURLS. fails env kr v) \<longrightarrow>
    debianHeadersURLFromRelease env kr =
      (Return [] (Some (Errorf ''kernel headers not found'')), baseURLS))
   \<and> (http_Get env u = Inl err \<longrightarrow> fails env kr u)
   \<and> (http_Get env u = Inr (Inl err) \<longrightarrow> fails env kr u)
   \<and> (http_Get env u = Inr (Inr body)
        \<and> lookFor env kr (matchExtraGroup kr) ''kernel headers not found'' body
            = Return m (Some err) \<longrightarrow> fails env kr u)
   \<and> (http_Get env u = Inr (Inr body)
        \<and> lookFor env kr (matchExtraGroup kr) ''kernel headers not found'' body = Return m None
        \<and> lookFor env kr matchExtraGroupCommon ''kernel headers common not found'' body
            = Return mc (Some err) \<longrightarrow> fails env kr u)
   \<and> (regexp_Compile env (kbuild_rmatch (Version kr) (PatchLevel kr) (Architecture kr))
          = Some pattern
        \<and> http_Get env (kbuild_baseURL kr) = Inl err \<longrightarrow>
      debianKbuildURLFromRelease env kr = (Return [] (Some err), [kbuild_baseURL kr])
      \<and> fetchDebianKernelURLs env kr = (Return [] (Some err), [kbuild_baseURL kr]))
   \<and> (regexp_Compile env (kbuild_rmatch (Version kr) (PatchLevel kr) (Architecture kr))
          = Some pattern
        \<and> http_Get env (kbuild_baseURL kr) = Inr (Inr body) \<and> length (pattern body) \<noteq> 2 \<longrightarrow>
      fetchDebianKernelURLs env kr =
        (Return [] (Some (Errorf ''kbuild not found'')), [kbuild_baseURL kr]))"
proof (intro conjI impI)
  assume a: "i < length baseURLS \<and> (\<forall>j<i. fails env kr (baseURLS ! j))
      \<and> fst (fetchDebianHeadersURLFromRelease env (baseURLS ! i) kr) = Return urls None"
  then have split: "baseURLS = take i baseURLS @ baseURLS ! i # drop (Suc i) baseURLS"
    by (simp add: id_take_nth_drop)
  from a have "\<forall>v \<in> set (take i baseURLS). fails env kr v"
    by (auto simp: in_set_conv_nth)
  from headersLoop_skip [OF this, of "baseURLS ! i # drop (Suc i) baseURLS"] split
  have "headersLoop env kr baseURLS =
          (fst (headersLoop env kr (baseURLS ! i # drop (Suc i) baseURLS)),
           take i baseURLS @ snd (headersLoop env kr (baseURLS ! i # drop (Suc i) baseURLS)))"
    by simp
  moreover from a have "headersLoop env kr (baseURLS ! i # drop (Suc i) baseURLS) =
      (Return urls None, [baseURLS ! i])"
    using headersLoop_hit [of env "baseURLS ! i" kr urls] by blast
  moreover from a have "take i baseURLS @ [baseURLS ! i] = take (Suc i) baseURLS"
    by (simp add: take_Suc_conv_app_nth)
  ultimately show "debianHeadersURLFromRelease env kr = (Return urls None, take (Suc i) baseURLS)"
    by (simp add: debianHeadersURLFromRelease_def)
next
  assume "\<forall>v \<in> set baseURLS. fails env kr v"
  then show "debianHeadersURLFromRelease env kr =
      (Return [] (Some (Errorf ''kernel headers not found'')), baseURLS)"
    by (simp add: debianHeadersURLFromRelease_def headersLoop_exhausted)
next
  assume "http_Get env u = Inl err"
  then show "fails env kr u"
    by (simp add: fails_def fetchDebianHeadersURLFromRelease_def)
next
  assume "http_Get env u = Inr (Inl err)"
  then show "fails env kr u"
    by (simp add: fails_def fetchDebianHeadersURLFromRelease_def)
next
  assume "http_Get env u = Inr (Inr body)
        \<and> lookFor env kr (matchExtraGroup kr) ''kernel headers not found'' body
            = Return m (Some err)"
  then show "fails env kr u"
    by (simp add: fails_def fetchDebianHeadersURLFromRelease_def)
next
  assume "http_Get env u = Inr (Inr body)
        \<and> lookFor env kr (matchExtraGroup kr) ''kernel headers not found'' body = Return m None
        \<and> lookFor env kr matchExtraGroupCommon ''kernel headers common not found'' body
            = Return mc (Some err)"
  then show "fails env kr u"
    by (simp add: fails_def fetchDebianHeadersURLFromRelease_def)
next
  assume a: "regexp_Compile env (kbuild_rmatch (Version kr) (PatchLevel kr) (Architecture kr))
          = Some pattern
        \<and> http_Get env (kbuild_baseURL kr) = Inl err"
  then show k: "debianKbuildURLFromRelease env kr = (Return [] (Some err), [kbuild_baseURL kr])"
    by (simp add: debianKbuildURLFromRelease_def)
  then show "fetchDebianKernelURLs env kr = (Return [] (Some err), [kbuild_baseURL kr])"
    by (simp add: fetchDebianKernelURLs_def)
next
  assume a: "regexp_Compile env (kbuild_rmatch (Version kr) (PatchLevel kr) (Architecture kr))
          = Some pattern
        \<and> http_Get env (kbuild_baseURL kr) = Inr (Inr body) \<and> length (pattern body) \<noteq> 2"
  then have "debianKbuildURLFromRelease env kr =
      (Return [] (Some (Errorf ''kbuild not found'')), [kbuild_baseURL kr])"
    by (simp add: debianKbuildURLFromRelease_def)
  then show "fetchDebianKernelURLs env kr =
        (Return [] (Some (Errorf ''kbuild not found'')), [kbuild_baseURL kr])"
    by (simp add: fetchDebianKernelURLs_def)
qed

theorem C2_mirror_fallback_witness:
  "debianHeadersURLFromRelease (test_env test_http [] test_tree) kr_5_10 =
     (Return [mirror_updates @ deb_headers, mirror_updates @ deb_common] None,
      [mirror_main, mirror_updates])
   \<and> test_http mirror_main = Inl (Errorf ''connection refused'')
   \<and> test_http mirror_edge = Inr (Inr page_headers)"
proof -
  let ?env = "test_env test_http [] test_tree"
  let ?urls = "[mirror_updates @ deb_headers, mirror_updates @ deb_common]"
  have i: "(1::nat) < length baseURLS"
    by (simp add: baseURLS_def)
  have down: "http_Get ?env (baseURLS ! 0) = Inl (Errorf ''connection refused'')"
    by code_simp
  have hit: "fst (fetchDebianHeadersURLFromRelease ?env (baseURLS ! 1) kr_5_10) = Return ?urls None"
    by code_simp
  have tk: "take (Suc 1) baseURLS = [mirror_main, mirror_updates]"
    by code_simp
  have pages: "test_http mirror_main = Inl (Errorf ''connection refused'')"
    "test_http mirror_edge = Inr (Inr page_headers)"
    by code_simp+
  note inst = C2_mirror_fallback [of 1 ?env kr_5_10 ?urls "baseURLS ! 0" "Errorf ''connection refused''"]
  from inst down have "fails ?env kr_5_10 (baseURLS ! 0)"
    by blast
  then have "\<forall>j<1. fails ?env kr_5_10 (baseURLS ! j)"
    by simp
  with inst i hit have "debianHeadersURLFromRelease ?env kr_5_10 =
      (Return ?urls None, take (Suc 1) baseURLS)"
    by blast
  with tk pages show ?thesis
    by simp
qed

text \<open>
  Where the claim as first stated fails. With the kbuild mirror down, its transport
  error is the result of the whole resolution and no other page is requested. And a
  first mirror whose page yields the match for the primary headers, but not the one for
  the common headers, does not satisfy the primary role: both URLs come from the second
  mirror.
\<close>

theorem C2_kbuild_no_fallback_counterexample:
  "fetchDebianKernelURLs (test_env test_http_kbuild_down [] test_tree) kr_5_10 =
     (Return [] (Some (Errorf ''connection refused'')), [mirror_kbuild])
   \<and> test_http_kbuild_down mirror_kbuild = Inl (Errorf ''connection refused'')
   \<and> test_http_partial mirror_main = Inr (Inr page_primary)
   \<and> lookFor (test_env test_http_partial [] test_tree) kr_5_10 (matchExtraGroup kr_5_10)
         ''kernel headers not found'' page_primary =
       Return [href deb_headers, deb_headers, ''amd64'', ''amd64''] None
   \<and> debianHeadersURLFromRelease (test_env test_http_partial [] test_tree) kr_5_10 =
       (Return [mirror_updates @ deb_headers, mirror_updates @ deb_common] None,
        [mirror_main, mirror_updates])"
  by code_simp

subsection \<open>The naming schemes\<close>

text \<open>
  C3. For each of the two header roles the older pattern is applied to the index page
  first, and the newer one only when the older finds nothing: when the older pattern
  matches, its match is used and the newer pattern is not even compiled; a page that
  only the newer pattern matches resolves with the newer match; a page that neither
  pattern matches for the primary headers fails with "kernel headers not found", and
  one that neither matches for the common headers fails with "kernel headers common
  not found". The patterns of the common headers are compiled only once the primary
  headers have been found.
\<close>

theorem C3_older_scheme_first:
  assumes "http_Get env u = Inr (Inr body)"
    and "regexp_Compile env
           (rmatch (Version kr) (PatchLevel kr) (Sublevel kr) (extraVersionPartial kr)
              (matchExtraGroup kr) (Architecture kr)) = Some older"
    and "older body = [] \<Longrightarrow>
         regexp_Compile env
           (rmatchNew (matchExtraGroup kr) (Version kr) (PatchLevel kr) (Sublevel kr)
              (extraVersionPartial kr) (Architecture kr)) = Some newer"
    and "older body \<noteq> [] \<or> newer body \<noteq> [] \<Longrightarrow>
         regexp_Compile env
           (rmatch (Version kr) (PatchLevel kr) (Sublevel kr) (extraVersionPartial kr)
              matchExtraGroupCommon (Architecture kr)) = Some olderCommon"
    and "older body \<noteq> [] \<or> newer body \<noteq> [] \<Longrightarrow> olderCommon body = [] \<Longrightarrow>
         regexp_Compile env
           (rmatchNew matchExtraGroupCommon (Version kr) (PatchLevel kr) (Sublevel kr)
              (extraVersionPartial kr) (Architecture kr)) = Some newerCommon"
  shows "fst (fetchDebianHeadersURLFromRelease env u kr) =
     (let matches = (if older body \<noteq> [] then older body else newer body);
          matchesCommon =
            (if olderCommon body \<noteq> [] then olderCommon body else newerCommon body)
      in if matches = [] then Return [] (Some (Errorf ''kernel headers not found''))
         else if matchesCommon = []
           then Return [] (Some (Errorf ''kernel headers common not found''))
         else if length matches < 2 \<or> length matchesCommon < 2
           then Panic ''index out of range''
         else Return [u @ matches ! 1, u @ matchesCommon ! 1] None)"
proof -
  have p: "lookFor env kr (matchExtraGroup kr) ''kernel headers not found'' body =
      (if older body \<noteq> [] then Return (older body) None
       else if newer body \<noteq> [] then Return (newer body) None
       else Return [] (Some (Errorf ''kernel headers not found'')))"
    using assms(2,3) by (simp add: lookFor_def Let_def)
  show ?thesis
  proof (cases "older body \<noteq> [] \<or> newer body \<noteq> []")
    case True
    have c: "lookFor env kr matchExtraGroupCommon ''kernel headers common not found'' body =
        (if olderCommon body \<noteq> [] then Return (olderCommon body) None
         else if newerCommon body \<noteq> [] then Return (newerCommon body) None
         else Return [] (Some (Errorf ''kernel headers common not found'')))"
      using assms(4) [OF True] assms(5) [OF True] by (simp add: lookFor_def Let_def)
    from True show ?thesis
      using assms(1) by (auto simp: fetchDebianHeadersURLFromRelease_def p c Let_def)
  next
    case False
    then show ?thesis
      using assms(1) by (simp add: fetchDebianHeadersURLFromRelease_def p Let_def)
  qed
qed

theorem C3_older_scheme_first_witness:
  "fst (fetchDebianHeadersURLFromRelease (test_env test_http_new [] test_tree) mirror_main
          kr_5_10_103) =
     Return [mirror_main @ deb_headers_new, mirror_main @ deb_common_new] None
   \<and> fst (fetchDebianHeadersURLFromRelease (test_env test_http [] test_tree) mirror_updates
          kr_5_10) =
     Return [mirror_updates @ deb_headers, mirror_updates @ deb_common] None
   \<and> fst (fetchDebianHeadersURLFromRelease (test_env test_http [] test_tree) mirror_updates
          kr_5_10_103) =
     Return [] (Some (Errorf ''kernel headers not found''))
   \<and> fst (fetchDebianHeadersURLFromRelease (test_env test_http_partial [] test_tree) mirror_main
          kr_5_10) =
     Return [] (Some (Errorf ''kernel headers common not found''))"
proof -
  let ?find = "\<lambda>p body. case map_of test_matches (p, body) of Some m \<Rightarrow> m | None \<Rightarrow> []"
  have compiles: "regexp_Compile (test_env get down tree) p = Some (?find p)" for get down tree p
    by (simp add: test_env_def test_regexp_def)
  have get1: "http_Get (test_env test_http_new [] test_tree) mirror_main = Inr (Inr page_new)"
    by code_simp
  have get2: "http_Get (test_env test_http [] test_tree) mirror_updates = Inr (Inr page_headers)"
    by code_simp
  have get3: "http_Get (test_env test_http_partial [] test_tree) mirror_main
                = Inr (Inr page_primary)"
    by code_simp
  note newer_only =
    C3_older_scheme_first [OF get1 compiles compiles compiles compiles, of kr_5_10_103]
  note older_only =
    C3_older_scheme_first [OF get2 compiles compiles compiles compiles, of kr_5_10]
  note neither =
    C3_older_scheme_first [OF get2 compiles compiles compiles compiles, of kr_5_10_103]
  note no_common =
    C3_older_scheme_first [OF get3 compiles compiles compiles compiles, of kr_5_10]
  have "fst (fetchDebianHeadersURLFromRelease (test_env test_http_new [] test_tree) mirror_main
          kr_5_10_103) =
     Return [mirror_main @ deb_headers_new, mirror_main @ deb_common_new] None"
    unfolding newer_only by code_simp
  moreover have "fst (fetchDebianHeadersURLFromRelease (test_env test_http [] test_tree)
          mirror_updates kr_5_10) =
     Return [mirror_updates @ deb_headers, mirror_updates @ deb_common] None"
    unfolding older_only by code_simp
  moreover have "fst (fetchDebianHeadersURLFromRelease (test_env test_http [] test_tree)
          mirror_updates kr_5_10_103) =
     Return [] (Some (Errorf ''kernel headers not found''))"
    unfolding neither by code_simp
  moreover have "fst (fetchDebianHeadersURLFromRelease (test_env test_http_partial [] test_tree)
          mirror_main kr_5_10) =
     Return [] (Some (Errorf ''kernel headers common not found''))"
    unfolding no_common by code_simp
  ultimately show ?thesis
    by blast
qed

subsection \<open>The cloud marker\<close>

lemma strings_HasSuffix_append: "strings_HasSuffix (s @ suffix) suffix"
  by (simp add: strings_HasSuffix_def strings_HasPrefix_append)

lemma strings_TrimSuffix_append: "strings_TrimSuffix (s @ suffix) suffix = s"
  by (simp add: strings_TrimSuffix_def strings_HasSuffix_append)

lemma strings_Contains_append: "strings_Contains (s @ substr @ t) substr"
proof (induction s)
  case Nil
  show ?case
    using strings_HasPrefix_append [of substr t] by (cases "substr @ t") auto
next
  case (Cons c cs)
  then show ?case by simp
qed

text \<open>
  C7, as amended. When FullExtraversion contains "-cloud" anywhere, the naming group of
  the primary headers pattern is "cloud-" followed by the architecture, and the
  fragment is FullExtraversion without a trailing "-" and architecture and then without
  a trailing "-cloud"; only a trailing marker is removed. Without the marker the group
  is the architecture and the fragment is FullExtraversion without the trailing "-" and
  architecture. For an extraversion of the form x-cloud-arch the fragment is x and the
  older pattern reads linux-headers-V.P.Sx-(cloud-arch)_.*(arch|all).deb.
\<close>

theorem C7_cloud_marker:
  "(strings_Contains (FullExtraversion kr) ''-cloud'' \<longrightarrow>
      matchExtraGroup kr = ''cloud-'' @ Architecture kr
      \<and> extraVersionPartial kr =
          strings_TrimSuffix
            (strings_TrimSuffix (FullExtraversion kr) (''-'' @ Architecture kr)) ''-cloud'')
   \<and> (\<not> strings_Contains (FullExtraversion kr) ''-cloud'' \<longrightarrow>
      matchExtraGroup kr = Architecture kr
      \<and> extraVersionPartial kr =
          strings_TrimSuffix (FullExtraversion kr) (''-'' @ Architecture kr))
   \<and> (FullExtraversion kr = x @ ''-cloud'' @ ''-'' @ Architecture kr \<longrightarrow>
      extraVersionPartial kr = x
      \<and> matchExtraGroup kr = ''cloud-'' @ Architecture kr
      \<and> rmatch (Version kr) (PatchLevel kr) (Sublevel kr) (extraVersionPartial kr)
           (matchExtraGroup kr) (Architecture kr) =
         ''href='' @ dq @ ''(linux-headers-'' @ fmt_d (Version kr) @ bs @ ''.''
           @ fmt_d (PatchLevel kr) @ bs @ ''.'' @ fmt_d (Sublevel kr) @ x
           @ ''-(cloud-'' @ Architecture kr @ '')_.*('' @ Architecture kr @ ''|all)'' @ bs
           @ ''.deb)'' @ dq)"
proof (intro conjI impI)
  assume "strings_Contains (FullExtraversion kr) ''-cloud''"
  then show "matchExtraGroup kr = ''cloud-'' @ Architecture kr"
    and "extraVersionPartial kr =
          strings_TrimSuffix
            (strings_TrimSuffix (FullExtraversion kr) (''-'' @ Architecture kr)) ''-cloud''"
    by (simp_all add: matchExtraGroup_def extraVersionPartial_def)
next
  assume "\<not> strings_Contains (FullExtraversion kr) ''-cloud''"
  then show "matchExtraGroup kr = Architecture kr"
    and "extraVersionPartial kr =
          strings_TrimSuffix (FullExtraversion kr) (''-'' @ Architecture kr)"
    by (simp_all add: matchExtraGroup_def extraVersionPartial_def)
next
  assume fe: "FullExtraversion kr = x @ ''-cloud'' @ ''-'' @ Architecture kr"
  have c: "strings_Contains (FullExtraversion kr) ''-cloud''"
    unfolding fe by (rule strings_Contains_append)
  have "strings_TrimSuffix (FullExtraversion kr) (''-'' @ Architecture kr) = x @ ''-cloud''"
    using strings_TrimSuffix_append [of "x @ ''-cloud''" "''-'' @ Architecture kr"]
    by (simp add: fe)
  with c show p: "extraVersionPartial kr = x"
    using strings_TrimSuffix_append [of x "''-cloud''"]
    by (simp add: extraVersionPartial_def)
  from c show g: "matchExtraGroup kr = ''cloud-'' @ Architecture kr"
    by (simp add: matchExtraGroup_def)
  show "rmatch (Version kr) (PatchLevel kr) (Sublevel kr) (extraVersionPartial kr)
           (matchExtraGroup kr) (Architecture kr) =
         ''href='' @ dq @ ''(linux-headers-'' @ fmt_d (Version kr) @ bs @ ''.''
           @ fmt_d (PatchLevel kr) @ bs @ ''.'' @ fmt_d (Sublevel kr) @ x
           @ ''-(cloud-'' @ Architecture kr @ '')_.*('' @ Architecture kr @ ''|all)'' @ bs
           @ ''.deb)'' @ dq"
    by (simp add: p g rmatch_def)
qed

theorem C7_cloud_marker_witness:
  "extraVersionPartial kr_cloud = ''-6''
   \<and> matchExtraGroup kr_cloud = ''cloud-amd64''
   \<and> rmatch (Version kr_cloud) (PatchLevel kr_cloud) (Sublevel kr_cloud)
        (extraVersionPartial kr_cloud) (matchExtraGroup kr_cloud) (Architecture kr_cloud) =
      ''href='' @ dq @ ''(linux-headers-4'' @ bs @ ''.19'' @ bs
        @ ''.0-6-(cloud-amd64)_.*(amd64|all)'' @ bs @ ''.deb)'' @ dq
   \<and> extraVersionPartial kr_5_10 = ''-8''
   \<and> matchExtraGroup kr_5_10 = ''amd64''"
proof -
  have fe: "FullExtraversion kr_cloud = ''-6'' @ ''-cloud'' @ ''-'' @ Architecture kr_cloud"
    by (simp add: kr_cloud_def)
  have plain: "\<not> strings_Contains (FullExtraversion kr_5_10) ''-cloud''"
    by code_simp
  have trim: "strings_TrimSuffix (FullExtraversion kr_5_10) ''-amd64'' = ''-8''"
    by code_simp
  have arch: "Architecture kr_5_10 = ''amd64''" "Architecture kr_cloud = ''amd64''"
    by (simp_all add: kr_5_10_def kr_cloud_def)
  have nums: "fmt_d (Version kr_cloud) = ''4''" "fmt_d (PatchLevel kr_cloud) = ''19''"
    "fmt_d (Sublevel kr_cloud) = ''0''"
    by code_simp+
  from C7_cloud_marker [of kr_cloud "''-6''"] fe
  have "extraVersionPartial kr_cloud = ''-6''"
    and "matchExtraGroup kr_cloud = ''cloud-'' @ Architecture kr_cloud"
    and "rmatch (Version kr_cloud) (PatchLevel kr_cloud) (Sublevel kr_cloud)
           (extraVersionPartial kr_cloud) (matchExtraGroup kr_cloud) (Architecture kr_cloud) =
         ''href='' @ dq @ ''(linux-headers-'' @ fmt_d (Version kr_cloud) @ bs @ ''.''
           @ fmt_d (PatchLevel kr_cloud) @ bs @ ''.'' @ fmt_d (Sublevel kr_cloud) @ ''-6''
           @ ''-(cloud-'' @ Architecture kr_cloud @ '')_.*('' @ Architecture kr_cloud
           @ ''|all)'' @ bs @ ''.deb)'' @ dq"
    by blast+
  moreover from C7_cloud_marker [of kr_5_10] plain
  have "matchExtraGroup kr_5_10 = Architecture kr_5_10"
    and "extraVersionPartial kr_5_10 =
          strings_TrimSuffix (FullExtraversion kr_5_10) (''-'' @ Architecture kr_5_10)"
    by blast+
  ultimately show ?thesis
    by (simp add: trim arch nums dq_def bs_def)
qed

theorem C7_marker_not_trailing_counterexample:
  "strings_Contains (FullExtraversion kr_cloud_rt) ''-cloud''
   \<and> extraVersionPartial kr_cloud_rt = ''-6-cloud-rt''
   \<and> strings_Contains (extraVersionPartial kr_cloud_rt) ''-cloud''
   \<and> matchExtraGroup kr_cloud_rt = ''cloud-amd64''"
  by code_simp

subsection \<open>Script\<close>

text \<open>
  C1. Whether the URLs are the overrides of the caller or come from the mirrors, when
  the set that getResolvingURLs returns has fewer than three URLs Script fails with
  "specific kernel headers not found"; and whenever Script succeeds, that set had at
  least three URLs. (The template is parsed first, so the statement is for a template
  that parses.)
\<close>

theorem C1_cardinality_gate:
  "(template_Parse env (debTemplateStr env (Architecture kr)) = Inr parsed
      \<and> KernelUrls c = Some overrides
      \<and> getResolvingURLs env overrides = (urls, None) \<and> length urls < 3 \<longrightarrow>
    Script env c kr = (Return [] (Some (Errorf ''specific kernel headers not found'')), []))
   \<and> (template_Parse env (debTemplateStr env (Architecture kr)) = Inr parsed
      \<and> KernelUrls c = None
      \<and> fst (fetchDebianKernelURLs env kr) = Return kurls None
      \<and> getResolvingURLs env kurls = (urls, None) \<and> length urls < 3 \<longrightarrow>
    fst (Script env c kr) = Return [] (Some (Errorf ''specific kernel headers not found'')))
   \<and> (fst (Script env c kr) = Return script None \<longrightarrow>
    (\<exists>reachable. 3 \<le> length reachable
       \<and> (case KernelUrls c of
             Some given \<Rightarrow> getResolvingURLs env given = (reachable, None)
           | None \<Rightarrow>
               (\<exists>found. fst (fetchDebianKernelURLs env kr) = Return found None
                  \<and> getResolvingURLs env found = (reachable, None)))))"
proof (intro conjI impI)
  assume "template_Parse env (debTemplateStr env (Architecture kr)) = Inr parsed
      \<and> KernelUrls c = Some overrides
      \<and> getResolvingURLs env overrides = (urls, None) \<and> length urls < 3"
  then show "Script env c kr =
      (Return [] (Some (Errorf ''specific kernel headers not found'')), [])"
    by (simp add: Script_def Script_urls_def)
next
  assume a: "template_Parse env (debTemplateStr env (Architecture kr)) = Inr parsed
      \<and> KernelUrls c = None
      \<and> fst (fetchDebianKernelURLs env kr) = Return kurls None
      \<and> getResolvingURLs env kurls = (urls, None) \<and> length urls < 3"
  obtain r g where f: "fetchDebianKernelURLs env kr = (r, g)"
    by (cases "fetchDebianKernelURLs env kr")
  with a have "Script_urls env c kr = (Return urls None, g)"
    by (simp add: Script_urls_def)
  with a show "fst (Script env c kr) =
      Return [] (Some (Errorf ''specific kernel headers not found''))"
    by (simp add: Script_def)
next
  assume a: "fst (Script env c kr) = Return script None"
  obtain r g where u: "Script_urls env c kr = (r, g)"
    by (cases "Script_urls env c kr")
  with a obtain reachable where r: "r = Return reachable None" "3 \<le> length reachable"
    by (auto simp: Script_def split: sum.splits go.splits option.splits if_splits prod.splits)
  show "\<exists>reachable. 3 \<le> length reachable
       \<and> (case KernelUrls c of
             Some given \<Rightarrow> getResolvingURLs env given = (reachable, None)
           | None \<Rightarrow>
               (\<exists>found. fst (fetchDebianKernelURLs env kr) = Return found None
                  \<and> getResolvingURLs env found = (reachable, None)))"
  proof (cases "KernelUrls c")
    case None
    obtain rf gf where f: "fetchDebianKernelURLs env kr = (rf, gf)"
      by (cases "fetchDebianKernelURLs env kr")
    with u r None obtain found where
      "rf = Return found None" "getResolvingURLs env found = (reachable, None)"
      by (auto simp: Script_urls_def split: go.splits option.splits prod.splits)
    with f r None show ?thesis
      by (intro exI [of _ reachable]) simp
  next
    case (Some given)
    with u r have "getResolvingURLs env given = (reachable, None)"
      by (auto simp: Script_urls_def split: prod.splits)
    with r Some show ?thesis
      by (intro exI [of _ reachable]) simp
  qed
qed

theorem C1_cardinality_gate_witness:
  "Script (test_env test_http [] test_tree) (test_config \<lparr> KernelUrls := Some test_overrides \<rparr>)
       kr_5_10 =
     (Return [] (Some (Errorf ''specific kernel headers not found'')), [])
   \<and> getResolvingURLs (test_env test_http [] test_tree) test_overrides = (test_overrides, None)
   \<and> length test_overrides = 2
   \<and> fst (Script (test_env test_http [mirror_updates @ deb_common] test_tree) test_config
            kr_5_10) =
     Return [] (Some (Errorf ''specific kernel headers not found''))
   \<and> getResolvingURLs (test_env test_http [mirror_updates @ deb_common] test_tree)
        [mirror_updates @ deb_headers, mirror_updates @ deb_common, mirror_kbuild @ deb_kbuild]
      = ([mirror_updates @ deb_headers, mirror_kbuild @ deb_kbuild], None)"
proof -
  let ?env = "test_env test_http [] test_tree"
  let ?env' = "test_env test_http [mirror_updates @ deb_common] test_tree"
  let ?c = "test_config \<lparr> KernelUrls := Some test_overrides \<rparr>"
  let ?found = "[mirror_updates @ deb_headers, mirror_updates @ deb_common,
                 mirror_kbuild @ deb_kbuild]"
  let ?left = "[mirror_updates @ deb_headers, mirror_kbuild @ deb_kbuild]"
  have parse: "template_Parse (test_env get down test_tree)
                 (debTemplateStr (test_env get down test_tree) (Architecture kr_5_10))
               = Inr test_tree" for get down
    by (simp add: test_env_def)
  have o1: "KernelUrls ?c = Some test_overrides"
    by simp
  have o2: "getResolvingURLs ?env test_overrides = (test_overrides, None)"
    by code_simp
  have o3: "length test_overrides < 3" "length test_overrides = 2"
    by (simp_all add: test_overrides_def)
  have m1: "KernelUrls test_config = None"
    by (simp add: test_config_def)
  have m2: "fst (fetchDebianKernelURLs ?env' kr_5_10) = Return ?found None"
    by code_simp
  have m3: "getResolvingURLs ?env' ?found = (?left, None)"
    by code_simp
  have m4: "length ?left < 3"
    by simp
  from C1_cardinality_gate [where env = ?env and kr = kr_5_10 and parsed = test_tree and c = ?c
                            and overrides = test_overrides and urls = test_overrides]
       parse o1 o2 o3
  have "Script ?env ?c kr_5_10 =
      (Return [] (Some (Errorf ''specific kernel headers not found'')), [])"
    by blast
  moreover
  from C1_cardinality_gate [where env = ?env' and kr = kr_5_10 and parsed = test_tree
                            and c = test_config and kurls = ?found and urls = ?left]
       parse m1 m2 m3 m4
  have "fst (Script ?env' test_config kr_5_10) =
      Return [] (Some (Errorf ''specific kernel headers not found''))"
    by blast
  ultimately show ?thesis
    using o2 o3 m3 by blast
qed

text \<open>
  C8. Whenever Script returns an error, the script text it returns is empty. Each stage
  that fails makes Script return its error with the empty text: the parse of the
  template, the resolution from the mirrors, getResolvingURLs, the check of the number
  of URLs, and the execution of the template, whatever the execution had already
  written to the buffer. A script that is returned without error is the whole output
  of an execution that did not fail. (A pattern that does not compile makes
  MustCompile panic; Script then returns nothing at all.)
\<close>

theorem C8_no_partial_script:
  "(fst (Script env c kr) = Return script (Some err) \<longrightarrow> script = [])
   \<and> (template_Parse env (debTemplateStr env (Architecture kr)) = Inl err \<longrightarrow>
        Script env c kr = (Return [] (Some err), []))
   \<and> (template_Parse env (debTemplateStr env (Architecture kr)) = Inr parsed
        \<and> KernelUrls c = None
        \<and> fst (fetchDebianKernelURLs env kr) = Return kurls (Some err) \<longrightarrow>
        fst (Script env c kr) = Return [] (Some err))
   \<and> (template_Parse env (debTemplateStr env (Architecture kr)) = Inr parsed
        \<and> fst (Script_urls env c kr) = Return urls (Some err) \<longrightarrow>
        fst (Script env c kr) = Return [] (Some err))
   \<and> (template_Parse env (debTemplateStr env (Architecture kr)) = Inr parsed
        \<and> fst (Script_urls env c kr) = Return urls None \<and> length urls < 3 \<longrightarrow>
        fst (Script env c kr) = Return [] (Some (Errorf ''specific kernel headers not found'')))
   \<and> (template_Parse env (debTemplateStr env (Architecture kr)) = Inr parsed
        \<and> fst (Script_urls env c kr) = Return urls None \<and> 3 \<le> length urls
        \<and> Execute parsed (templateData env c kr urls) = (buf, Some err) \<longrightarrow>
        fst (Script env c kr) = Return [] (Some err))
   \<and> (fst (Script env c kr) = Return script None \<longrightarrow>
        (\<exists>tree resolved.
           template_Parse env (debTemplateStr env (Architecture kr)) = Inr tree
           \<and> fst (Script_urls env c kr) = Return resolved None
           \<and> Execute tree (templateData env c kr resolved) = (script, None)))"
proof (intro conjI impI)
  assume "fst (Script env c kr) = Return script (Some err)"
  then show "script = []"
    by (auto simp: Script_def split: sum.splits go.splits option.splits if_splits prod.splits)
next
  assume "template_Parse env (debTemplateStr env (Architecture kr)) = Inl err"
  then show "Script env c kr = (Return [] (Some err), [])"
    by (simp add: Script_def)
next
  assume a: "template_Parse env (debTemplateStr env (Architecture kr)) = Inr parsed
        \<and> KernelUrls c = None
        \<and> fst (fetchDebianKernelURLs env kr) = Return kurls (Some err)"
  obtain r g where f: "fetchDebianKernelURLs env kr = (r, g)"
    by (cases "fetchDebianKernelURLs env kr")
  with a have "Script_urls env c kr = (Return [] (Some err), g)"
    by (simp add: Script_urls_def)
  with a show "fst (Script env c kr) = Return [] (Some err)"
    by (simp add: Script_def)
next
  assume a: "template_Parse env (debTemplateStr env (Architecture kr)) = Inr parsed
        \<and> fst (Script_urls env c kr) = Return urls (Some err)"
  then show "fst (Script env c kr) = Return [] (Some err)"
    by (cases "Script_urls env c kr") (simp add: Script_def)
next
  assume a: "template_Parse env (debTemplateStr env (Architecture kr)) = Inr parsed
        \<and> fst (Script_urls env c kr) = Return urls None \<and> length urls < 3"
  then show "fst (Script env c kr) =
      Return [] (Some (Errorf ''specific kernel headers not found''))"
    by (cases "Script_urls env c kr") (simp add: Script_def)
next
  assume a: "template_Parse env (debTemplateStr env (Architecture kr)) = Inr parsed
        \<and> fst (Script_urls env c kr) = Return urls None \<and> 3 \<le> length urls
        \<and> Execute parsed (templateData env c kr urls) = (buf, Some err)"
  then show "fst (Script env c kr) = Return [] (Some err)"
    by (cases "Script_urls env c kr") (simp add: Script_def)
next
  assume "fst (Script env c kr) = Return script None"
  then show "\<exists>tree resolved.
           template_Parse env (debTemplateStr env (Architecture kr)) = Inr tree
           \<and> fst (Script_urls env c kr) = Return resolved None
           \<and> Execute tree (templateData env c kr resolved) = (script, None)"
    by (cases "Script_urls env c kr")
       (auto simp: Script_def split: sum.splits go.splits option.splits if_splits prod.splits)
qed

theorem C8_no_partial_script_witness:
  "Execute test_tree_bad
     (templateData (test_env test_http [] test_tree_bad) test_config kr_5_10
        [mirror_updates @ deb_headers, mirror_updates @ deb_common, mirror_kbuild @ deb_kbuild])
     = (''yum install kernel-devel-0:'', Some (Errorf ''can not evaluate field KernelPackage''))
   \<and> fst (Script (test_env test_http [] test_tree_bad) test_config kr_5_10) =
       Return [] (Some (Errorf ''can not evaluate field KernelPackage''))"
proof -
  let ?env = "test_env test_http [] test_tree_bad"
  let ?urls = "[mirror_updates @ deb_headers, mirror_updates @ deb_common,
                mirror_kbuild @ deb_kbuild]"
  have parse: "template_Parse ?env (debTemplateStr ?env (Architecture kr_5_10)) = Inr test_tree_bad"
    by (simp add: test_env_def)
  have urls: "fst (Script_urls ?env test_config kr_5_10) = Return ?urls None"
    by code_simp
  have n: "3 \<le> length ?urls"
    by simp
  have ex: "Execute test_tree_bad (templateData ?env test_config kr_5_10 ?urls) =
      (''yum install kernel-devel-0:'', Some (Errorf ''can not evaluate field KernelPackage''))"
    by code_simp
  from C8_no_partial_script
         [where env = ?env and c = test_config and kr = kr_5_10 and parsed = test_tree_bad
            and urls = ?urls and buf = "''yum install kernel-devel-0:''"
            and err = "Errorf ''can not evaluate field KernelPackage''"]
       parse urls n ex
  have "fst (Script ?env test_config kr_5_10) =
      Return [] (Some (Errorf ''can not evaluate field KernelPackage''))"
    by blast
  with ex show ?thesis
    by blast
qed

subsection \<open>The conditional sections\<close>

lemma seq_out_append:
  "seq_out (xs @ ys) =
     (case seq_out xs of
        (a, Some e) \<Rightarrow> (a, Some e)
      | (a, None) \<Rightarrow> (case seq_out ys of (b, e) \<Rightarrow> (a @ b, e)))"
proof (induction xs)
  case Nil
  then show ?case by (simp split: prod.splits)
next
  case (Cons x xs)
  obtain out e where x: "x = (out, e)"
    by (cases x)
  show ?case
  proof (cases e)
    case None
    with x Cons show ?thesis
      by (simp split: prod.splits option.splits)
  next
    case (Some err)
    with x show ?thesis by simp
  qed
qed

lemma Execute_append:
  "Execute (p @ q) td =
     (case Execute p td of
        (a, Some e) \<Rightarrow> (a, Some e)
      | (a, None) \<Rightarrow> (case Execute q td of (b, e) \<Rightarrow> (a @ b, e)))"
  by (simp add: Execute_def seq_out_append split: prod.splits option.splits)

lemma Execute_sections:
  assumes "Execute moduleSection td = (modul, None)"
    and "Execute probeSection td = (probe, None)"
  shows "Execute [TIf ''BuildModule'' moduleSection, TText sep, TIf ''BuildProbe'' probeSection] td
     = ((if td_BuildModule td then modul else []) @ sep
          @ (if td_BuildProbe td then probe else []), None)"
  using assms by (simp add: Execute_def field_def)

text \<open>
  C4. For a template of the Debian shape whose three parts execute without error, the
  script is the text of the preamble, then the text of the module-build section exactly
  when the module output path is not empty, then the blank line, then the text of the
  probe-build section exactly when the probe output path is not empty. With neither
  path the script is the preamble and the blank line.
\<close>

theorem C4_conditional_sections:
  assumes "template_Parse env (debTemplateStr env (Architecture kr)) =
             Inr (debianTemplateShape preamble moduleSection probeSection)"
    and "fst (Script_urls env c kr) = Return urls None"
    and "3 \<le> length urls"
    and "Execute preamble (templateData env c kr urls) = (pre, None)"
    and "Execute moduleSection (templateData env c kr urls) = (modul, None)"
    and "Execute probeSection (templateData env c kr urls) = (probe, None)"
  shows "fst (Script env c kr) =
     Return (pre @ (if ModuleFilePath (Build c) \<noteq> [] then modul else [])
               @ ''\<newline>\<newline>''
               @ (if ProbeFilePath (Build c) \<noteq> [] then probe else [])) None"
proof -
  let ?td = "templateData env c kr urls"
  have flags: "td_BuildModule ?td = (ModuleFilePath (Build c) \<noteq> [])"
    "td_BuildProbe ?td = (ProbeFilePath (Build c) \<noteq> [])"
    by (simp_all add: templateData_def)
  have "Execute (debianTemplateShape preamble moduleSection probeSection) ?td =
      (pre @ (if ModuleFilePath (Build c) \<noteq> [] then modul else [])
         @ ''\<newline>\<newline>'' @ (if ProbeFilePath (Build c) \<noteq> [] then probe else []), None)"
    unfolding debianTemplateShape_def Execute_append
    using assms(4) Execute_sections [OF assms(5,6), of "''\<newline>\<newline>''"] flags
    by simp
  with assms(1,2,3) show ?thesis
    by (cases "Script_urls env c kr") (simp add: Script_def)
qed

theorem C4_conditional_sections_witness:
  "fst (Script (test_env test_http [] test_tree) test_config kr_5_10) =
     Return (''mkdir /tmp/driver\<newline>curl '' @ mirror_updates @ deb_headers
               @ ''\<newline>curl '' @ mirror_updates @ deb_common
               @ ''\<newline>curl '' @ mirror_kbuild @ deb_kbuild @ ''\<newline>''
               @ ''\<newline># Build the module\<newline>mv falco.ko /tmp/driver/module.ko\<newline>''
               @ ''\<newline>\<newline>'') None
   \<and> ModuleFilePath (Build test_config) \<noteq> [] \<and> ProbeFilePath (Build test_config) = []"
proof -
  let ?env = "test_env test_http [] test_tree"
  let ?urls = "[mirror_updates @ deb_headers, mirror_updates @ deb_common,
                mirror_kbuild @ deb_kbuild]"
  let ?td = "templateData ?env test_config kr_5_10 ?urls"
  have parse: "template_Parse ?env (debTemplateStr ?env (Architecture kr_5_10)) =
      Inr (debianTemplateShape test_preamble test_moduleSection test_probeSection)"
    by (simp add: test_env_def test_tree_def)
  have urls: "fst (Script_urls ?env test_config kr_5_10) = Return ?urls None"
    by code_simp
  have n: "3 \<le> length ?urls"
    by simp
  have pre: "Execute test_preamble ?td =
      (''mkdir /tmp/driver\<newline>curl '' @ mirror_updates @ deb_headers
         @ ''\<newline>curl '' @ mirror_updates @ deb_common
         @ ''\<newline>curl '' @ mirror_kbuild @ deb_kbuild @ ''\<newline>'', None)"
    by code_simp
  have modul: "Execute test_moduleSection ?td =
      (''\<newline># Build the module\<newline>mv falco.ko /tmp/driver/module.ko\<newline>'', None)"
    by code_simp
  have probe: "Execute test_probeSection ?td =
      (''\<newline># Build the eBPF probe\<newline>cd /tmp/driver/bpf\<newline>'', None)"
    by code_simp
  have paths: "ModuleFilePath (Build test_config) \<noteq> []" "ProbeFilePath (Build test_config) = []"
    by (simp_all add: test_config_def)
  from C4_conditional_sections [OF parse urls n pre modul probe] paths
  show ?thesis
    by simp
qed

end
